theory Spec2Isabelle
  imports Main
begin

section \<open>Data model (types.ts, Dashboard, PosScreen)\<close>

text \<open>
  JavaScript numbers that hold quantities and prices are modelled as \<open>int\<close>.
  Of a \<open>Product\<close> only the attributes read by the sale and replay code are kept
  (\<open>id\<close>, \<open>name\<close>, \<open>price\<close>, \<open>barcode\<close>); \<open>ProductWithStock\<close> is
  \<open>Product & { stock: number }\<close>, the element type of \<open>productStockMap\<close> and of the
  cart.
\<close>

datatype Role = Owner | Staff

record user =
  u_id :: string
  u_name :: string
  u_role :: Role
  u_branch_id :: string

record product =
  p_id :: string
  p_name :: string
  p_price :: int
  p_barcode :: string

record product_with_stock = product +
  stock :: int

record stock_level =
  sl_product_id :: string
  sl_branch_id :: string
  sl_quantity :: int

record cart_item =
  product :: product_with_stock
  quantity :: int

type_synonym cart = "cart_item list"

text \<open>
  A row of \<open>sales\<close> as built by \<open>handleNewSale\<close>. Its \<open>date\<close> column is the clock
  reading at submission; the clock is not modelled and the column is left out.
\<close>

record sale_row =
  s_product_id :: string
  s_quantity :: int
  s_total_price :: int
  s_branch_id :: string
  s_user_id :: string

record audit_log =
  al_user_id :: string
  al_user_name :: string
  al_action :: string
  al_details :: string

subsection \<open>The remote data API\<close>

text \<open>
  The remote system of record is reached through \<open>supabase\<close>, whose client is created
  with its defaults: every awaited request resolves to an object with an \<open>error\<close>
  field and never throws. The model records every request in the order the code issues
  it, and takes the answer from a responder that sees the requests received so far.
\<close>

datatype request =
    InsertSales "sale_row list"
  | UpdateStock string int
  | InsertAudit audit_log
  | SelectAll string

datatype response = Ok | Rejected string

type_synonym responder = "request list \<Rightarrow> request \<Rightarrow> response"

subsection \<open>Local storage, console and component state\<close>

text \<open>
  The value under the key \<open>offlineSales\<close> of \<open>localStorage\<close>: text that
  \<open>JSON.parse\<close> rejects, text that parses to something that is not an array, or the
  serialised array of carts. An absent key (and the empty string, which both readers
  treat alike) is \<open>None\<close>.
\<close>

datatype stored = Unparseable | NotArray | CartArray "cart list"

datatype console_entry = ConsoleLog string | ConsoleError string

datatype js_error = SyntaxError | TypeError | QuotaExceededError

record dashboard =
  user :: user
  products :: "product list"
  stockLevels :: "stock_level list"
  sales :: "sale_row list"
  auditLogs :: "audit_log list"
  loading :: bool
  isOnline :: bool
  isPrinterEnabled :: bool
  hasOfflineSales :: bool
  offlineSales :: "stored option"
  received :: "request list"
  console :: "console_entry list"
  alerts :: "string list"

record completed_sale =
  items :: cart
  total :: int

record pos =
  cart :: cart
  searchTerm :: string
  isPrintModalOpen :: bool
  saleToPrint :: "completed_sale option"

section \<open>Number formatting in template literals\<close>

definition digit :: "nat \<Rightarrow> char" where
  "digit n = ''0123456789'' ! (n mod 10)"

fun show_nat :: "nat \<Rightarrow> string" where
  "show_nat n = (if n < 10 then [digit n] else show_nat (n div 10) @ [digit n])"

declare show_nat.simps [simp del]

definition show_int :: "int \<Rightarrow> string" where
  "show_int i = (if i < 0 then CHR ''-'' # show_nat (nat (- i)) else show_nat (nat i))"

section \<open>Dashboard\<close>

definition send :: "responder \<Rightarrow> request \<Rightarrow> dashboard \<Rightarrow> response \<times> dashboard" where
  "send R req d = (R (received d) req, d\<lparr>received := received d @ [req]\<rparr>)"

definition checkOfflineSales :: "dashboard \<Rightarrow> dashboard" where
  "checkOfflineSales d =
     (case offlineSales d of
        None \<Rightarrow> d\<lparr>hasOfflineSales := False\<rparr>
      | Some Unparseable \<Rightarrow> d\<lparr>hasOfflineSales := False\<rparr>
      | Some NotArray \<Rightarrow> d\<lparr>hasOfflineSales := False\<rparr>
      | Some (CartArray carts) \<Rightarrow> d\<lparr>hasOfflineSales := (length carts > 0)\<rparr>)"

definition addAuditLog :: "responder \<Rightarrow> string \<Rightarrow> string \<Rightarrow> dashboard \<Rightarrow> dashboard" where
  "addAuditLog R action details d =
     (let newLog = \<lparr>al_user_id = u_id (user d), al_user_name = u_name (user d),
                     al_action = action, al_details = details\<rparr>;
          (res, d1) = send R (InsertAudit newLog) d
      in case res of
           Rejected e \<Rightarrow> d1\<lparr>console := console d1 @ [ConsoleError (''Error adding audit log: '' @ e)]\<rparr>
         | Ok \<Rightarrow> d1\<lparr>auditLogs := newLog # auditLogs d1\<rparr>)"

text \<open>
  \<open>fetchData\<close> in two steps. Up to its \<open>await\<close> the loading flag is raised and
  the four selects are issued; its callers here do not await it. When the four answers
  are in, \<open>fetchData_resolve\<close> installs the rows of every select that returned data
  and lowers the flag. The rows are what the remote returns: \<open>fetched\<close> holds the
  \<open>data\<close> field of each answer, \<open>None\<close> for \<open>null\<close>.
\<close>

definition fetchData :: "dashboard \<Rightarrow> dashboard" where
  "fetchData d =
     d\<lparr>loading := True,
       received := received d @ [SelectAll ''products'', SelectAll ''stock_levels'',
                                 SelectAll ''sales'', SelectAll ''audit_logs'']\<rparr>"




definition productName :: "product list \<Rightarrow> string \<Rightarrow> string" where
  "productName ps productId =
     (case find (\<lambda>p. p_id p = productId) ps of
        None \<Rightarrow> ''Unknown Product''
      | Some p \<Rightarrow> if p_name p = [] then ''Unknown Product'' else p_name p)"

definition handleUpdateStock :: "responder \<Rightarrow> string \<Rightarrow> int \<Rightarrow> string \<Rightarrow> dashboard \<Rightarrow> dashboard" where
  "handleUpdateStock R productId newQuantity reason d =
     (if reason = ''Manual Update'' \<and> u_role (user d) \<noteq> Owner
      then d\<lparr>alerts := alerts d @ [''You are not authorized to manually update stock.'']\<rparr>
      else
        (let (res, d1) = send R (UpdateStock productId newQuantity) d
         in case res of
              Rejected e \<Rightarrow> d1\<lparr>console := console d1 @ [ConsoleError e]\<rparr>
            | Ok \<Rightarrow>
                addAuditLog R reason
                  ((if reason = ''Sale'' then ''Sold'' else ''Updated'') @ '' stock for ''
                     @ productName (products d) productId @ ''. New quantity: ''
                     @ show_int newQuantity @ ''.'')
                  d1))"

definition salesToInsert :: "user \<Rightarrow> cart \<Rightarrow> sale_row list" where
  "salesToInsert u c =
     map (\<lambda>item. \<lparr>s_product_id = p_id (product item),
                   s_quantity = quantity item,
                   s_total_price = p_price (product item) * quantity item,
                   s_branch_id = u_branch_id u,
                   s_user_id = u_id u\<rparr>) c"

text \<open>
  One turn of the loop over the cart in \<open>handleNewSale\<close>. The stock rows are those the
  callback closed over, passed as \<open>snapshot\<close>.
\<close>

definition sale_line :: "responder \<Rightarrow> stock_level list \<Rightarrow> cart_item \<Rightarrow> dashboard \<Rightarrow> dashboard" where
  "sale_line R snapshot item d =
     (case find (\<lambda>s. sl_product_id s = p_id (product item)) snapshot of
        None \<Rightarrow> d
      | Some currentStock \<Rightarrow>
          handleUpdateStock R (p_id (product item))
            (sl_quantity currentStock - quantity item) ''Sale'' d)"

definition handleNewSale :: "responder \<Rightarrow> cart \<Rightarrow> dashboard \<Rightarrow> dashboard" where
  "handleNewSale R c d =
     (let (res, d1) = send R (InsertSales (salesToInsert (user d) c)) d
      in case res of
           Rejected e \<Rightarrow> d1\<lparr>console := console d1 @ [ConsoleError e]\<rparr>
         | Ok \<Rightarrow> fold (sale_line R (stockLevels d)) c d1)"

definition syncOfflineSales :: "responder \<Rightarrow> dashboard \<Rightarrow> dashboard" where
  "syncOfflineSales R d =
     (case offlineSales d of
        None \<Rightarrow> d
      | Some Unparseable \<Rightarrow>
          d\<lparr>console := console d @ [ConsoleError ''Failed to parse or sync offline sales:''],
            alerts := alerts d @
              [''There was an error syncing offline sales. They have been kept for the next attempt.'']\<rparr>
      | Some NotArray \<Rightarrow> d
      | Some (CartArray offlineCarts) \<Rightarrow>
          if length offlineCarts > 0 then
            (let d1 = d\<lparr>console := console d @
                        [ConsoleLog (''Syncing '' @ show_nat (length offlineCarts) @ '' offline sales.'')]\<rparr>;
                 d2 = addAuditLog R ''Sync Offline Sales''
                        (''Syncing '' @ show_nat (length offlineCarts) @ '' sales recorded while offline.'') d1;
                 d3 = fold (handleNewSale R) offlineCarts d2;
                 d4 = d3\<lparr>offlineSales := None\<rparr>;
                 d5 = checkOfflineSales d4;
                 d6 = d5\<lparr>console := console d5 @
                        [ConsoleLog ''Offline sales synced and cleared from local storage.''],
                         alerts := alerts d5 @ [''Offline sales have been successfully synced!'']\<rparr>
             in fetchData d6)
          else d)"






section \<open>PosScreen\<close>

definition addToCart :: "product_with_stock \<Rightarrow> pos \<Rightarrow> pos" where
  "addToCart pr p =
     (case find (\<lambda>item. p_id (product item) = p_id pr) (cart p) of
        Some existingItem \<Rightarrow>
          (if quantity existingItem < stock pr
           then p\<lparr>cart := map (\<lambda>item. if p_id (product item) = p_id pr
                                       then item\<lparr>quantity := quantity item + 1\<rparr> else item) (cart p),
                  searchTerm := []\<rparr>
           else p\<lparr>searchTerm := []\<rparr>)
      | None \<Rightarrow> p\<lparr>cart := cart p @ [\<lparr>product = pr, quantity = 1\<rparr>], searchTerm := []\<rparr>)"

definition updateQuantity :: "string \<Rightarrow> int \<Rightarrow> pos \<Rightarrow> pos" where
  "updateQuantity productId q p =
     (case find (\<lambda>item. p_id (product item) = productId) (cart p) of
        None \<Rightarrow> p
      | Some item \<Rightarrow>
          if q > 0 \<and> q \<le> stock (product item)
          then p\<lparr>cart := map (\<lambda>item. if p_id (product item) = productId
                                      then item\<lparr>quantity := q\<rparr> else item) (cart p)\<rparr>
          else p)"

definition cart_total :: "cart \<Rightarrow> int" where
  "cart_total c = foldl (\<lambda>sum item. sum + p_price (product item) * quantity item) 0 c"

text \<open>
  \<open>completeSale\<close>. The result pairs the exception that left the handler, if any
  (\<open>JSON.parse\<close> on unparseable text, \<open>push\<close> on a value that is not an array,
  \<open>setItem\<close> on a full store), with the state the handler leaves behind. \<open>quota_ok\<close>
  tells whether \<open>localStorage.setItem\<close> succeeds. \<open>onNewSale\<close> is
  \<open>handleNewSale\<close>; it is called without \<open>await\<close> and its result is not looked
  at, so the cart is cleared (or the print dialogue opened) whatever the remote answers.
\<close>

definition completeSale ::
  "responder \<Rightarrow> bool \<Rightarrow> dashboard \<times> pos \<Rightarrow> js_error option \<times> dashboard \<times> pos" where
  "completeSale R quota_ok w =
     (case w of (d, p) \<Rightarrow>
        if isOnline d then
          (let saleData = \<lparr>items = cart p, total = cart_total (cart p)\<rparr>;
               d1 = handleNewSale R (cart p) d
           in if isPrinterEnabled d
              then (None, d1, p\<lparr>saleToPrint := Some saleData, isPrintModalOpen := True\<rparr>)
              else (None, d1, p\<lparr>cart := []\<rparr>))
        else
          (case (case offlineSales d of
                   None \<Rightarrow> Inr []
                 | Some Unparseable \<Rightarrow> Inl SyntaxError
                 | Some NotArray \<Rightarrow> Inl TypeError
                 | Some (CartArray cs) \<Rightarrow> Inr cs) of
             Inl e \<Rightarrow> (Some e, d, p)
           | Inr parsed \<Rightarrow>
               if quota_ok
               then (None,
                     d\<lparr>offlineSales := Some (CartArray (parsed @ [cart p])),
                       alerts := alerts d @
                         [''You are offline. Sale has been saved locally and will be synced automatically when you reconnect.'']\<rparr>,
                     p\<lparr>cart := []\<rparr>)
               else (Some QuotaExceededError, d, p)))"

definition handleClosePrintModal :: "pos \<Rightarrow> pos" where
  "handleClosePrintModal p = p\<lparr>isPrintModalOpen := False, saleToPrint := None, cart := []\<rparr>"

section \<open>Observations and responders used in the statements\<close>

text \<open>A remote that accepts every request, and one that rejects every request.\<close>

definition accept_all :: responder where
  "accept_all h r = Ok"

definition reject_all :: responder where
  "reject_all h r = Rejected ''unreachable''"

text \<open>The carts a reader of the stored queue obtains.\<close>

definition queued :: "dashboard \<Rightarrow> cart list" where
  "queued d = (case offlineSales d of Some (CartArray cs) \<Rightarrow> cs | _ \<Rightarrow> [])"

text \<open>The requests the remote received between state \<open>d\<close> and a later state \<open>d'\<close>.\<close>

definition issued :: "dashboard \<Rightarrow> dashboard \<Rightarrow> request list" where
  "issued d d' = drop (length (received d)) (received d')"

fun sale_inserts :: "request list \<Rightarrow> sale_row list list" where
  "sale_inserts [] = []"
| "sale_inserts (InsertSales rows # rs) = rows # sale_inserts rs"
| "sale_inserts (UpdateStock pid q # rs) = sale_inserts rs"
| "sale_inserts (InsertAudit a # rs) = sale_inserts rs"
| "sale_inserts (SelectAll t # rs) = sale_inserts rs"

fun stock_writes :: "request list \<Rightarrow> (string \<times> int) list" where
  "stock_writes [] = []"
| "stock_writes (InsertSales rows # rs) = stock_writes rs"
| "stock_writes (UpdateStock pid q # rs) = (pid, q) # stock_writes rs"
| "stock_writes (InsertAudit a # rs) = stock_writes rs"
| "stock_writes (SelectAll t # rs) = stock_writes rs"

fun audit_appends :: "request list \<Rightarrow> audit_log list" where
  "audit_appends [] = []"
| "audit_appends (InsertSales rows # rs) = audit_appends rs"
| "audit_appends (UpdateStock pid q # rs) = audit_appends rs"
| "audit_appends (InsertAudit a # rs) = a # audit_appends rs"
| "audit_appends (SelectAll t # rs) = audit_appends rs"

text \<open>
  What a request is, with the text of audit entries left out: the rows of an insert into
  \<open>sales\<close>, the key and value of a stock update, the action of an audit entry, the
  table of a select.
\<close>

datatype event = Sale "sale_row list" | Stock string int | Audit string | Select string


text \<open>A remote that rejects the first insert into \<open>sales\<close> it sees and accepts the rest.\<close>

definition reject_first_insert :: responder where
  "reject_first_insert h r =
     (case r of
        InsertSales rows \<Rightarrow> if sale_inserts h = [] then Rejected ''timeout'' else Ok
      | _ \<Rightarrow> Ok)"

text \<open>The stock row \<open>handleNewSale\<close> finds for a cart line, and the lines that have one.\<close>

definition stock_row :: "stock_level list \<Rightarrow> cart_item \<Rightarrow> stock_level option" where
  "stock_row snapshot item = find (\<lambda>s. sl_product_id s = p_id (product item)) snapshot"

definition lines_with_stock :: "stock_level list \<Rightarrow> cart \<Rightarrow> cart" where
  "lines_with_stock snapshot c = filter (\<lambda>item. stock_row snapshot item \<noteq> None) c"

text \<open>What the loop of \<open>handleNewSale\<close> writes to \<open>stock_levels\<close> for one cart line.\<close>

definition line_writes :: "stock_level list \<Rightarrow> cart_item \<Rightarrow> (string \<times> int) list" where
  "line_writes snapshot item =
     (case stock_row snapshot item of
        None \<Rightarrow> []
      | Some s \<Rightarrow> [(p_id (product item), sl_quantity s - quantity item)])"





subsection \<open>A concrete shop\<close>

definition ex_user :: user where
  "ex_user = \<lparr>u_id = ''u1'', u_name = ''ann'', u_role = Staff, u_branch_id = ''b1''\<rparr>"

definition ex_A :: product where
  "ex_A = \<lparr>p_id = ''A'', p_name = ''Pod'', p_price = 5, p_barcode = ''111''\<rparr>"

definition ex_B :: product where
  "ex_B = \<lparr>p_id = ''B'', p_name = ''Coil'', p_price = 2, p_barcode = ''222''\<rparr>"

text \<open>The shop with \<open>n\<close> units of product A in the fetched snapshot; B has no stock row.\<close>

definition ex_shop :: "int \<Rightarrow> bool \<Rightarrow> stored option \<Rightarrow> dashboard" where
  "ex_shop n online slot =
     \<lparr>user = ex_user, products = [ex_A, ex_B],
       stockLevels = [\<lparr>sl_product_id = ''A'', sl_branch_id = ''b1'', sl_quantity = n\<rparr>],
       sales = [], auditLogs = [], loading = False, isOnline = online, isPrinterEnabled = False,
       hasOfflineSales = False, offlineSales = slot, received = [], console = [], alerts = []\<rparr>"

text \<open>A cart line for \<open>q\<close> units of a product that showed \<open>n\<close> in stock when it was added.\<close>

definition ex_line :: "product \<Rightarrow> int \<Rightarrow> int \<Rightarrow> cart_item" where
  "ex_line pr n q =
     \<lparr>product = \<lparr>p_id = p_id pr, p_name = p_name pr, p_price = p_price pr,
                   p_barcode = p_barcode pr, stock = n\<rparr>,
       quantity = q\<rparr>"

definition ex_pos :: "cart \<Rightarrow> pos" where
  "ex_pos c = \<lparr>cart = c, searchTerm = [], isPrintModalOpen = False, saleToPrint = None\<rparr>"


text \<open>
  The shop as it is once the remote has rejected the first of two queued sales and the
  drain has run to its end.
\<close>

definition ex_after_failed_drain :: dashboard where
  "ex_after_failed_drain =
     syncOfflineSales reject_first_insert
       (ex_shop 10 True (Some (CartArray [[ex_line ex_A 10 2], [ex_line ex_A 10 1]])))"

subsection \<open>The remote store in the examples\<close>











section \<open>Frame lemmas\<close>

lemma sale_inserts_append: "sale_inserts (xs @ ys) = sale_inserts xs @ sale_inserts ys"
  by (induction xs rule: sale_inserts.induct) simp_all

lemma stock_writes_append: "stock_writes (xs @ ys) = stock_writes xs @ stock_writes ys"
  by (induction xs rule: stock_writes.induct) simp_all

lemma audit_appends_append: "audit_appends (xs @ ys) = audit_appends xs @ audit_appends ys"
  by (induction xs rule: audit_appends.induct) simp_all

lemma issued_refl: "issued d d = []"
  by (simp add: issued_def)

lemma issued_eq: "received d' = received d @ xs \<Longrightarrow> issued d d' = xs"
  by (simp add: issued_def)

lemma addAuditLog_received:
  "received (addAuditLog R a x d) =
     received d @ [InsertAudit \<lparr>al_user_id = u_id (user d), al_user_name = u_name (user d),
                                 al_action = a, al_details = x\<rparr>]"
  by (simp add: addAuditLog_def send_def Let_def split: response.splits)

lemma addAuditLog_frame:
  "user (addAuditLog R a x d) = user d"
  "products (addAuditLog R a x d) = products d"
  "stockLevels (addAuditLog R a x d) = stockLevels d"
  "offlineSales (addAuditLog R a x d) = offlineSales d"
  "alerts (addAuditLog R a x d) = alerts d"
  "isOnline (addAuditLog R a x d) = isOnline d"
  "isPrinterEnabled (addAuditLog R a x d) = isPrinterEnabled d"
  by (simp_all add: addAuditLog_def send_def Let_def split: response.splits)

lemma handleUpdateStock_Sale_frame:
  "user (handleUpdateStock R pid q ''Sale'' d) = user d"
  "products (handleUpdateStock R pid q ''Sale'' d) = products d"
  "stockLevels (handleUpdateStock R pid q ''Sale'' d) = stockLevels d"
  "offlineSales (handleUpdateStock R pid q ''Sale'' d) = offlineSales d"
  "alerts (handleUpdateStock R pid q ''Sale'' d) = alerts d"
  "isOnline (handleUpdateStock R pid q ''Sale'' d) = isOnline d"
  "isPrinterEnabled (handleUpdateStock R pid q ''Sale'' d) = isPrinterEnabled d"
  by (simp_all add: handleUpdateStock_def send_def addAuditLog_frame split: response.splits)

lemma handleUpdateStock_Sale_received:
  "\<exists>xs. received (handleUpdateStock R pid q ''Sale'' d) = received d @ xs
        \<and> sale_inserts xs = [] \<and> stock_writes xs = [(pid, q)]
        \<and> map al_action (audit_appends xs) =
            (if R (received d) (UpdateStock pid q) = Ok then [''Sale''] else [])"
  by (simp add: handleUpdateStock_def send_def addAuditLog_received split: response.splits)

lemma sale_line_frame:
  "user (sale_line R snap item d) = user d"
  "products (sale_line R snap item d) = products d"
  "stockLevels (sale_line R snap item d) = stockLevels d"
  "offlineSales (sale_line R snap item d) = offlineSales d"
  "alerts (sale_line R snap item d) = alerts d"
  "isOnline (sale_line R snap item d) = isOnline d"
  "isPrinterEnabled (sale_line R snap item d) = isPrinterEnabled d"
  by (simp_all add: sale_line_def handleUpdateStock_Sale_frame split: option.splits)

lemma sale_line_received:
  "\<exists>xs. received (sale_line R snap item d) = received d @ xs
        \<and> sale_inserts xs = [] \<and> stock_writes xs = line_writes snap item
        \<and> set (map al_action (audit_appends xs)) \<subseteq> {''Sale''}"
proof (cases "stock_row snap item")
  case None
  then show ?thesis
    by (simp add: sale_line_def line_writes_def stock_row_def)
next
  case (Some s)
  obtain xs where xs:
    "received (handleUpdateStock R (p_id (product item)) (sl_quantity s - quantity item) ''Sale'' d)
       = received d @ xs"
    "sale_inserts xs = []"
    "stock_writes xs = [(p_id (product item), sl_quantity s - quantity item)]"
    "map al_action (audit_appends xs) =
       (if R (received d) (UpdateStock (p_id (product item)) (sl_quantity s - quantity item)) = Ok
        then [''Sale''] else [])"
    using handleUpdateStock_Sale_received by blast
  have "set (map al_action (audit_appends xs)) \<subseteq> {''Sale''}"
    unfolding xs(4) by auto
  with Some xs(1,2,3) show ?thesis
    by (simp add: sale_line_def line_writes_def stock_row_def)
qed

lemma fold_sale_line_frame:
  "user (fold (sale_line R snap) c d) = user d \<and>
   products (fold (sale_line R snap) c d) = products d \<and>
   stockLevels (fold (sale_line R snap) c d) = stockLevels d \<and>
   offlineSales (fold (sale_line R snap) c d) = offlineSales d \<and>
   alerts (fold (sale_line R snap) c d) = alerts d \<and>
   isOnline (fold (sale_line R snap) c d) = isOnline d \<and>
   isPrinterEnabled (fold (sale_line R snap) c d) = isPrinterEnabled d"
  by (induction c arbitrary: d) (simp_all add: sale_line_frame)

lemma fold_sale_line_received:
  "\<exists>xs. received (fold (sale_line R snap) c d) = received d @ xs
        \<and> sale_inserts xs = [] \<and> stock_writes xs = concat (map (line_writes snap) c)
        \<and> set (map al_action (audit_appends xs)) \<subseteq> {''Sale''}"
proof (induction c arbitrary: d)
  case Nil
  show ?case by simp
next
  case (Cons item c)
  obtain xs where xs:
    "received (sale_line R snap item d) = received d @ xs"
    "sale_inserts xs = []" "stock_writes xs = line_writes snap item"
    "set (map al_action (audit_appends xs)) \<subseteq> {''Sale''}"
    using sale_line_received by blast
  obtain ys where ys:
    "received (fold (sale_line R snap) c (sale_line R snap item d))
       = received (sale_line R snap item d) @ ys"
    "sale_inserts ys = []" "stock_writes ys = concat (map (line_writes snap) c)"
    "set (map al_action (audit_appends ys)) \<subseteq> {''Sale''}"
    using Cons.IH by blast
  have "received (fold (sale_line R snap) (item # c) d) = received d @ (xs @ ys)"
    using xs(1) ys(1) by simp
  moreover have "sale_inserts (xs @ ys) = []"
    using xs(2) ys(2) by (simp add: sale_inserts_append)
  moreover have "stock_writes (xs @ ys) = concat (map (line_writes snap) (item # c))"
    using xs(3) ys(3) by (simp add: stock_writes_append)
  moreover have "set (map al_action (audit_appends (xs @ ys))) \<subseteq> {''Sale''}"
    using xs(4) ys(4) by (simp add: audit_appends_append)
  ultimately show ?case by blast
qed

lemma handleNewSale_frame:
  "user (handleNewSale R c d) = user d \<and>
   products (handleNewSale R c d) = products d \<and>
   stockLevels (handleNewSale R c d) = stockLevels d \<and>
   offlineSales (handleNewSale R c d) = offlineSales d \<and>
   alerts (handleNewSale R c d) = alerts d \<and>
   isOnline (handleNewSale R c d) = isOnline d \<and>
   isPrinterEnabled (handleNewSale R c d) = isPrinterEnabled d"
  by (simp add: handleNewSale_def send_def fold_sale_line_frame split: response.splits)

lemma handleNewSale_received:
  "\<exists>xs. received (handleNewSale R c d) = received d @ InsertSales (salesToInsert (user d) c) # xs
        \<and> sale_inserts xs = []
        \<and> stock_writes xs =
            (if R (received d) (InsertSales (salesToInsert (user d) c)) = Ok
             then concat (map (line_writes (stockLevels d)) c) else [])
        \<and> set (map al_action (audit_appends xs)) \<subseteq> {''Sale''}"
proof (cases "R (received d) (InsertSales (salesToInsert (user d) c))")
  case Ok
  obtain xs where xs:
    "received (fold (sale_line R (stockLevels d)) c
        (d\<lparr>received := received d @ [InsertSales (salesToInsert (user d) c)]\<rparr>))
       = received (d\<lparr>received := received d @ [InsertSales (salesToInsert (user d) c)]\<rparr>) @ xs"
    "sale_inserts xs = []" "stock_writes xs = concat (map (line_writes (stockLevels d)) c)"
    "set (map al_action (audit_appends xs)) \<subseteq> {''Sale''}"
    using fold_sale_line_received by blast
  with Ok show ?thesis
    by (simp add: handleNewSale_def send_def)
next
  case (Rejected e)
  then show ?thesis
    by (simp add: handleNewSale_def send_def)
qed

lemma fold_handleNewSale_frame:
  "user (fold (handleNewSale R) cs d) = user d \<and>
   products (fold (handleNewSale R) cs d) = products d \<and>
   stockLevels (fold (handleNewSale R) cs d) = stockLevels d \<and>
   offlineSales (fold (handleNewSale R) cs d) = offlineSales d \<and>
   alerts (fold (handleNewSale R) cs d) = alerts d \<and>
   isOnline (fold (handleNewSale R) cs d) = isOnline d \<and>
   isPrinterEnabled (fold (handleNewSale R) cs d) = isPrinterEnabled d"
  by (induction cs arbitrary: d) (simp_all add: handleNewSale_frame)

lemma fold_handleNewSale_received:
  "\<exists>xs. received (fold (handleNewSale R) cs d) = received d @ xs
        \<and> sale_inserts xs = map (salesToInsert (user d)) cs
        \<and> set (stock_writes xs) \<subseteq>
            (\<Union>c \<in> set cs. \<Union>item \<in> set c. set (line_writes (stockLevels d) item))
        \<and> set (map al_action (audit_appends xs)) \<subseteq> {''Sale''}"
proof (induction cs arbitrary: d)
  case Nil
  show ?case by simp
next
  case (Cons c cs)
  let ?d1 = "handleNewSale R c d"
  obtain xs where xs:
    "received ?d1 = received d @ InsertSales (salesToInsert (user d) c) # xs"
    "sale_inserts xs = []"
    "stock_writes xs =
       (if R (received d) (InsertSales (salesToInsert (user d) c)) = Ok
        then concat (map (line_writes (stockLevels d)) c) else [])"
    "set (map al_action (audit_appends xs)) \<subseteq> {''Sale''}"
    using handleNewSale_received by blast
  have fr: "user ?d1 = user d" "stockLevels ?d1 = stockLevels d"
    by (simp_all add: handleNewSale_frame)
  obtain ys where ys:
    "received (fold (handleNewSale R) cs ?d1) = received ?d1 @ ys"
    "sale_inserts ys = map (salesToInsert (user d)) cs"
    "set (stock_writes ys) \<subseteq>
       (\<Union>c \<in> set cs. \<Union>item \<in> set c. set (line_writes (stockLevels d) item))"
    "set (map al_action (audit_appends ys)) \<subseteq> {''Sale''}"
    using Cons.IH [of ?d1] unfolding fr by blast
  let ?zs = "InsertSales (salesToInsert (user d) c) # xs @ ys"
  have "received (fold (handleNewSale R) (c # cs) d) = received d @ ?zs"
    using xs(1) ys(1) by simp
  moreover have "sale_inserts ?zs = map (salesToInsert (user d)) (c # cs)"
    using xs(2) ys(2) by (simp add: sale_inserts_append)
  moreover have "set (stock_writes xs) \<subseteq> (\<Union>item \<in> set c. set (line_writes (stockLevels d) item))"
    unfolding xs(3) by auto
  then have "set (stock_writes ?zs) \<subseteq>
      (\<Union>c \<in> set (c # cs). \<Union>item \<in> set c. set (line_writes (stockLevels d) item))"
    using ys(3) by (auto simp: stock_writes_append)
  moreover have "set (map al_action (audit_appends ?zs)) \<subseteq> {''Sale''}"
    using xs(4) ys(4) by (simp add: audit_appends_append)
  ultimately show ?case by blast
qed

section \<open>The drain\<close>

lemma syncOfflineSales_nonempty:
  assumes "offlineSales d = Some (CartArray cs)" and "cs \<noteq> []"
  shows "syncOfflineSales R d =
    (let d1 = d\<lparr>console := console d @
                 [ConsoleLog (''Syncing '' @ show_nat (length cs) @ '' offline sales.'')]\<rparr>;
         d2 = addAuditLog R ''Sync Offline Sales''
                (''Syncing '' @ show_nat (length cs) @ '' sales recorded while offline.'') d1;
         d3 = fold (handleNewSale R) cs d2;
         d4 = d3\<lparr>offlineSales := None\<rparr>;
         d5 = checkOfflineSales d4;
         d6 = d5\<lparr>console := console d5 @
                [ConsoleLog ''Offline sales synced and cleared from local storage.''],
                 alerts := alerts d5 @ [''Offline sales have been successfully synced!'']\<rparr>
     in fetchData d6)"
  using assms by (simp add: syncOfflineSales_def)

lemma checkOfflineSales_frame:
  "received (checkOfflineSales d) = received d"
  "offlineSales (checkOfflineSales d) = offlineSales d"
  "alerts (checkOfflineSales d) = alerts d"
  "console (checkOfflineSales d) = console d"
  by (simp_all add: checkOfflineSales_def split: option.splits stored.splits)

lemma syncOfflineSales_clears:
  assumes "offlineSales d = Some (CartArray cs)" and "cs \<noteq> []"
  shows "offlineSales (syncOfflineSales R d) = None"
    and "alerts (syncOfflineSales R d) = alerts d @ [''Offline sales have been successfully synced!'']"
  by (simp_all add: syncOfflineSales_nonempty [OF assms] Let_def fetchData_def
        checkOfflineSales_frame fold_handleNewSale_frame addAuditLog_frame)


lemma syncOfflineSales_received:
  assumes "offlineSales d = Some (CartArray cs)" and "cs \<noteq> []"
  shows "\<exists>a xs. received (syncOfflineSales R d) =
            received d @ InsertAudit a # xs @
              [SelectAll ''products'', SelectAll ''stock_levels'',
               SelectAll ''sales'', SelectAll ''audit_logs'']
        \<and> al_action a = ''Sync Offline Sales''
        \<and> sale_inserts xs = map (salesToInsert (user d)) cs
        \<and> set (stock_writes xs) \<subseteq>
            (\<Union>c \<in> set cs. \<Union>item \<in> set c. set (line_writes (stockLevels d) item))
        \<and> set (map al_action (audit_appends xs)) \<subseteq> {''Sale''}"
proof -
  define d1 where "d1 = d\<lparr>console := console d @
                 [ConsoleLog (''Syncing '' @ show_nat (length cs) @ '' offline sales.'')]\<rparr>"
  define d2 where "d2 = addAuditLog R ''Sync Offline Sales''
                (''Syncing '' @ show_nat (length cs) @ '' sales recorded while offline.'') d1"
  have d2: "user d2 = user d" "stockLevels d2 = stockLevels d"
    by (simp_all add: d2_def d1_def addAuditLog_frame)
  obtain a where a: "received d2 = received d @ [InsertAudit a]" "al_action a = ''Sync Offline Sales''"
    by (simp add: d2_def d1_def addAuditLog_received)
  obtain xs where xs:
    "received (fold (handleNewSale R) cs d2) = received d2 @ xs"
    "sale_inserts xs = map (salesToInsert (user d)) cs"
    "set (stock_writes xs) \<subseteq>
            (\<Union>c \<in> set cs. \<Union>item \<in> set c. set (line_writes (stockLevels d) item))"
    "set (map al_action (audit_appends xs)) \<subseteq> {''Sale''}"
    using fold_handleNewSale_received [of R cs d2] unfolding d2 by blast
  have "received (syncOfflineSales R d) =
            received d @ InsertAudit a # xs @
              [SelectAll ''products'', SelectAll ''stock_levels'',
               SelectAll ''sales'', SelectAll ''audit_logs'']"
    using a(1) xs(1)
    by (simp add: syncOfflineSales_nonempty [OF assms] Let_def fetchData_def
          checkOfflineSales_frame d2_def d1_def)
  with a(2) xs(2,3,4) show ?thesis by blast
qed

section \<open>A remote that accepts everything\<close>

lemma sale_line_accept:
  "\<exists>xs. received (sale_line accept_all snap item d) = received d @ xs
        \<and> sale_inserts xs = [] \<and> stock_writes xs = line_writes snap item
        \<and> map al_action (audit_appends xs) = replicate (length (lines_with_stock snap [item])) ''Sale''"
proof (cases "stock_row snap item")
  case None
  then show ?thesis
    by (simp add: sale_line_def line_writes_def stock_row_def lines_with_stock_def)
next
  case (Some s)
  obtain xs where xs:
    "received (handleUpdateStock accept_all (p_id (product item)) (sl_quantity s - quantity item) ''Sale'' d)
       = received d @ xs"
    "sale_inserts xs = []"
    "stock_writes xs = [(p_id (product item), sl_quantity s - quantity item)]"
    "map al_action (audit_appends xs) =
       (if accept_all (received d) (UpdateStock (p_id (product item)) (sl_quantity s - quantity item)) = Ok
        then [''Sale''] else [])"
    using handleUpdateStock_Sale_received by blast
  have "map al_action (audit_appends xs) = [''Sale'']"
    unfolding xs(4) by (simp add: accept_all_def)
  with Some xs(1,2,3) show ?thesis
    by (simp add: sale_line_def line_writes_def stock_row_def lines_with_stock_def)
qed

lemma lines_with_stock_Cons:
  "length (lines_with_stock snap (item # c)) =
     length (lines_with_stock snap [item]) + length (lines_with_stock snap c)"
  by (simp add: lines_with_stock_def)

lemma lines_with_stock_append:
  "lines_with_stock snap (c @ c') = lines_with_stock snap c @ lines_with_stock snap c'"
  by (simp add: lines_with_stock_def)

lemma fold_sale_line_accept:
  "\<exists>xs. received (fold (sale_line accept_all snap) c d) = received d @ xs
        \<and> sale_inserts xs = [] \<and> stock_writes xs = concat (map (line_writes snap) c)
        \<and> map al_action (audit_appends xs) = replicate (length (lines_with_stock snap c)) ''Sale''"
proof (induction c arbitrary: d)
  case Nil
  show ?case by (simp add: lines_with_stock_def)
next
  case (Cons item c)
  let ?d1 = "sale_line accept_all snap item d"
  obtain xs where xs:
    "received ?d1 = received d @ xs"
    "sale_inserts xs = []" "stock_writes xs = line_writes snap item"
    "map al_action (audit_appends xs) = replicate (length (lines_with_stock snap [item])) ''Sale''"
    using sale_line_accept by blast
  obtain ys where ys:
    "received (fold (sale_line accept_all snap) c ?d1) = received ?d1 @ ys"
    "sale_inserts ys = []" "stock_writes ys = concat (map (line_writes snap) c)"
    "map al_action (audit_appends ys) = replicate (length (lines_with_stock snap c)) ''Sale''"
    using Cons.IH by blast
  have "received (fold (sale_line accept_all snap) (item # c) d) = received d @ (xs @ ys)"
    using xs(1) ys(1) by simp
  moreover have "sale_inserts (xs @ ys) = []"
    using xs(2) ys(2) by (simp add: sale_inserts_append)
  moreover have "stock_writes (xs @ ys) = concat (map (line_writes snap) (item # c))"
    using xs(3) ys(3) by (simp add: stock_writes_append)
  moreover have "map al_action (audit_appends (xs @ ys)) =
      replicate (length (lines_with_stock snap (item # c))) ''Sale''"
  proof -
    have "map al_action (audit_appends (xs @ ys)) =
        replicate (length (lines_with_stock snap [item]) + length (lines_with_stock snap c)) ''Sale''"
      using xs(4) ys(4) by (simp add: audit_appends_append replicate_add)
    then show ?thesis
      by (simp only: lines_with_stock_Cons [of snap item c])
  qed
  ultimately show ?case by blast
qed

lemma handleNewSale_accept:
  "\<exists>xs. received (handleNewSale accept_all c d) =
            received d @ InsertSales (salesToInsert (user d) c) # xs
        \<and> sale_inserts xs = []
        \<and> stock_writes xs = concat (map (line_writes (stockLevels d)) c)
        \<and> map al_action (audit_appends xs) =
            replicate (length (lines_with_stock (stockLevels d) c)) ''Sale''"
proof -
  obtain xs where xs:
    "received (fold (sale_line accept_all (stockLevels d)) c
        (d\<lparr>received := received d @ [InsertSales (salesToInsert (user d) c)]\<rparr>))
       = received (d\<lparr>received := received d @ [InsertSales (salesToInsert (user d) c)]\<rparr>) @ xs"
    "sale_inserts xs = []" "stock_writes xs = concat (map (line_writes (stockLevels d)) c)"
    "map al_action (audit_appends xs) =
       replicate (length (lines_with_stock (stockLevels d) c)) ''Sale''"
    using fold_sale_line_accept by blast
  then show ?thesis
    by (simp add: handleNewSale_def send_def accept_all_def)
qed

lemma fold_handleNewSale_accept:
  "\<exists>xs. received (fold (handleNewSale accept_all) cs d) = received d @ xs
        \<and> sale_inserts xs = map (salesToInsert (user d)) cs
        \<and> stock_writes xs = concat (map (\<lambda>c. concat (map (line_writes (stockLevels d)) c)) cs)
        \<and> map al_action (audit_appends xs) =
            replicate (length (lines_with_stock (stockLevels d) (concat cs))) ''Sale''"
proof (induction cs arbitrary: d)
  case Nil
  show ?case by (simp add: lines_with_stock_def)
next
  case (Cons c cs)
  let ?d1 = "handleNewSale accept_all c d"
  obtain xs where xs:
    "received ?d1 = received d @ InsertSales (salesToInsert (user d) c) # xs"
    "sale_inserts xs = []"
    "stock_writes xs = concat (map (line_writes (stockLevels d)) c)"
    "map al_action (audit_appends xs) =
       replicate (length (lines_with_stock (stockLevels d) c)) ''Sale''"
    using handleNewSale_accept by blast
  have fr: "user ?d1 = user d" "stockLevels ?d1 = stockLevels d"
    by (simp_all add: handleNewSale_frame)
  obtain ys where ys:
    "received (fold (handleNewSale accept_all) cs ?d1) = received ?d1 @ ys"
    "sale_inserts ys = map (salesToInsert (user d)) cs"
    "stock_writes ys = concat (map (\<lambda>c. concat (map (line_writes (stockLevels d)) c)) cs)"
    "map al_action (audit_appends ys) =
       replicate (length (lines_with_stock (stockLevels d) (concat cs))) ''Sale''"
    using Cons.IH [of ?d1] unfolding fr by blast
  let ?zs = "InsertSales (salesToInsert (user d) c) # xs @ ys"
  have "received (fold (handleNewSale accept_all) (c # cs) d) = received d @ ?zs"
    using xs(1) ys(1) by simp
  moreover have "sale_inserts ?zs = map (salesToInsert (user d)) (c # cs)"
    using xs(2) ys(2) by (simp add: sale_inserts_append)
  moreover have "stock_writes ?zs =
      concat (map (\<lambda>c. concat (map (line_writes (stockLevels d)) c)) (c # cs))"
    using xs(3) ys(3) by (simp add: stock_writes_append)
  moreover have "map al_action (audit_appends ?zs) =
      replicate (length (lines_with_stock (stockLevels d) (concat (c # cs)))) ''Sale''"
    using xs(4) ys(4)
    by (simp add: audit_appends_append lines_with_stock_append replicate_add)
  ultimately show ?case by blast
qed

lemma syncOfflineSales_accept:
  assumes "offlineSales d = Some (CartArray cs)" and "cs \<noteq> []"
  shows "\<exists>a xs. received (syncOfflineSales accept_all d) =
            received d @ InsertAudit a # xs @
              [SelectAll ''products'', SelectAll ''stock_levels'',
               SelectAll ''sales'', SelectAll ''audit_logs'']
        \<and> al_action a = ''Sync Offline Sales''
        \<and> sale_inserts xs = map (salesToInsert (user d)) cs
        \<and> stock_writes xs = concat (map (\<lambda>c. concat (map (line_writes (stockLevels d)) c)) cs)
        \<and> map al_action (audit_appends xs) =
            replicate (length (lines_with_stock (stockLevels d) (concat cs))) ''Sale''"
proof -
  define d1 where "d1 = d\<lparr>console := console d @
                 [ConsoleLog (''Syncing '' @ show_nat (length cs) @ '' offline sales.'')]\<rparr>"
  define d2 where "d2 = addAuditLog accept_all ''Sync Offline Sales''
                (''Syncing '' @ show_nat (length cs) @ '' sales recorded while offline.'') d1"
  have d2: "user d2 = user d" "stockLevels d2 = stockLevels d"
    by (simp_all add: d2_def d1_def addAuditLog_frame)
  obtain a where a: "received d2 = received d @ [InsertAudit a]" "al_action a = ''Sync Offline Sales''"
    by (simp add: d2_def d1_def addAuditLog_received)
  obtain xs where xs:
    "received (fold (handleNewSale accept_all) cs d2) = received d2 @ xs"
    "sale_inserts xs = map (salesToInsert (user d)) cs"
    "stock_writes xs = concat (map (\<lambda>c. concat (map (line_writes (stockLevels d)) c)) cs)"
    "map al_action (audit_appends xs) =
       replicate (length (lines_with_stock (stockLevels d) (concat cs))) ''Sale''"
    using fold_handleNewSale_accept [of cs d2] unfolding d2 by blast
  have "received (syncOfflineSales accept_all d) =
            received d @ InsertAudit a # xs @
              [SelectAll ''products'', SelectAll ''stock_levels'',
               SelectAll ''sales'', SelectAll ''audit_logs'']"
    using a(1) xs(1)
    by (simp add: syncOfflineSales_nonempty [OF assms] Let_def fetchData_def
          checkOfflineSales_frame d2_def d1_def)
  with a(2) xs(2,3,4) show ?thesis by blast
qed

section \<open>Further facts about the drain and the sale screen\<close>

lemma sync_idle: "queued d = [] \<Longrightarrow> received (syncOfflineSales R d) = received d"
  by (auto simp: queued_def syncOfflineSales_def split: option.splits stored.splits)

lemma queued_nonempty: "queued d \<noteq> [] \<Longrightarrow> offlineSales d = Some (CartArray (queued d))"
  by (auto simp: queued_def split: option.splits stored.splits)

lemma line_writes_product:
  "w \<in> set (line_writes snap item) \<Longrightarrow>
     \<exists>s. stock_row snap item = Some s \<and> w = (p_id (product item), sl_quantity s - quantity item)"
  by (cases "stock_row snap item") (auto simp: line_writes_def)

text \<open>The equations that run the model on a concrete shop.\<close>

lemmas run_defs = syncOfflineSales_def handleNewSale_def sale_line_def handleUpdateStock_def
  addAuditLog_def send_def fetchData_def checkOfflineSales_def salesToInsert_def productName_def
  completeSale_def cart_total_def issued_def queued_def accept_all_def
  ex_shop_def ex_user_def ex_A_def ex_B_def ex_line_def ex_pos_def
  show_int_def show_nat.simps digit_def Let_def

lemma sync_accept_issued:
  assumes "queued d \<noteq> []"
  shows "sale_inserts (issued d (syncOfflineSales accept_all d)) = map (salesToInsert (user d)) (queued d)"
    and "stock_writes (issued d (syncOfflineSales accept_all d)) =
           concat (map (\<lambda>c. concat (map (line_writes (stockLevels d)) c)) (queued d))"
    and "map al_action (audit_appends (issued d (syncOfflineSales accept_all d))) =
           ''Sync Offline Sales'' #
           replicate (length (lines_with_stock (stockLevels d) (concat (queued d)))) ''Sale''"
proof -
  have q: "offlineSales d = Some (CartArray (queued d))"
    using assms by (rule queued_nonempty)
  obtain a xs where tr:
    "received (syncOfflineSales accept_all d) =
            received d @ InsertAudit a # xs @
              [SelectAll ''products'', SelectAll ''stock_levels'',
               SelectAll ''sales'', SelectAll ''audit_logs'']"
    "al_action a = ''Sync Offline Sales''"
    "sale_inserts xs = map (salesToInsert (user d)) (queued d)"
    "stock_writes xs = concat (map (\<lambda>c. concat (map (line_writes (stockLevels d)) c)) (queued d))"
    "map al_action (audit_appends xs) =
       replicate (length (lines_with_stock (stockLevels d) (concat (queued d)))) ''Sale''"
    using syncOfflineSales_accept [OF q assms] by blast
  have iss: "issued d (syncOfflineSales accept_all d) = InsertAudit a # xs @
              [SelectAll ''products'', SelectAll ''stock_levels'',
               SelectAll ''sales'', SelectAll ''audit_logs'']"
    using tr(1) by (rule issued_eq)
  show "sale_inserts (issued d (syncOfflineSales accept_all d)) = map (salesToInsert (user d)) (queued d)"
    by (simp add: iss sale_inserts_append tr(3))
  show "stock_writes (issued d (syncOfflineSales accept_all d)) =
           concat (map (\<lambda>c. concat (map (line_writes (stockLevels d)) c)) (queued d))"
    by (simp add: iss stock_writes_append tr(4))
  show "map al_action (audit_appends (issued d (syncOfflineSales accept_all d))) =
           ''Sync Offline Sales'' #
           replicate (length (lines_with_stock (stockLevels d) (concat (queued d)))) ''Sale''"
    by (simp add: iss audit_appends_append tr(2) tr(5))
qed

lemma sync_idle_issued: "queued d = [] \<Longrightarrow> issued d (syncOfflineSales R d) = []"
  by (simp add: issued_def sync_idle)

lemma completeSale_offline_queued:
  assumes "\<not> isOnline d" and "fst (completeSale R quota_ok (d, p)) = None"
  shows "queued (fst (snd (completeSale R quota_ok (d, p)))) = queued d @ [cart p]"
    and "cart (snd (snd (completeSale R quota_ok (d, p)))) = []"
  using assms
  by (auto simp: completeSale_def queued_def split: option.splits stored.splits if_splits)



lemma sync_absent: "offlineSales d = None \<Longrightarrow> syncOfflineSales R d = d"
  by (simp add: syncOfflineSales_def)

section \<open>The drain cut at its first await, and the requests of a replay in order\<close>




















section \<open>The claims\<close>

subsection \<open>Removal of queued sales (C1, C2)\<close>

text \<open>
  The one place where a parse failure makes \<open>syncOfflineSales\<close> reach its
  \<open>catch\<close>: the stored queue is kept and the user is told so.
\<close>

lemma syncOfflineSales_parse_failure:
  assumes "offlineSales d = Some Unparseable"
  shows "offlineSales (syncOfflineSales R d) = Some Unparseable"
    and "received (syncOfflineSales R d) = received d"
    and "alerts (syncOfflineSales R d) = alerts d @
           [''There was an error syncing offline sales. They have been kept for the next attempt.'']"
  using assms by (simp_all add: syncOfflineSales_def)

text \<open>
  C1. A queued sale is to leave the local queue only after its remote submission has
  succeeded. Evaluated on a queue holding one sale of two units of A, against a remote
  that rejects every request: the insert into \<open>sales\<close> is rejected and no stock is
  written, yet the drain removes the key \<open>offlineSales\<close> and reports success.
  \<open>handleNewSale\<close> logs the error and returns normally, so the \<open>catch\<close> of
  \<open>syncOfflineSales\<close>, whose message promises that the sales are kept, is never
  reached by a remote failure.
\<close>

theorem C1_drain_deletes_rejected_sale:
  "reject_all (received (ex_shop 10 True (Some (CartArray [[ex_line ex_A 10 2]]))))
      (InsertSales (salesToInsert ex_user [ex_line ex_A 10 2])) = Rejected ''unreachable''
   \<and> offlineSales (syncOfflineSales reject_all (ex_shop 10 True (Some (CartArray [[ex_line ex_A 10 2]])))) = None
   \<and> alerts (syncOfflineSales reject_all (ex_shop 10 True (Some (CartArray [[ex_line ex_A 10 2]]))))
        = [''Offline sales have been successfully synced!'']
   \<and> sale_inserts (received (syncOfflineSales reject_all (ex_shop 10 True (Some (CartArray [[ex_line ex_A 10 2]])))))
        = [salesToInsert ex_user [ex_line ex_A 10 2]]
   \<and> stock_writes (received (syncOfflineSales reject_all (ex_shop 10 True (Some (CartArray [[ex_line ex_A 10 2]]))))) = []"
  by (simp add: run_defs reject_all_def)

text \<open>
  C2. When the K-th queued sale fails, the drain is to stop, keep sale K and the later
  ones, report an error, and let a later drain complete them. Evaluated on a queue of two
  sales with a remote that rejects the first insert into \<open>sales\<close> (K = 1): the
  second sale is still submitted and its stock written, the whole queue is removed, the
  success message is shown, and a second drain against an accepting remote changes
  nothing, so the first sale never reaches the remote.
\<close>

theorem C2_drain_continues_after_failure:
  "reject_first_insert [InsertAudit \<lparr>al_user_id = ''u1'', al_user_name = ''ann'',
        al_action = ''Sync Offline Sales'', al_details = ''Syncing 2 sales recorded while offline.''\<rparr>]
        (InsertSales (salesToInsert ex_user [ex_line ex_A 10 2])) = Rejected ''timeout''
   \<and> sale_inserts (received ex_after_failed_drain)
        = [salesToInsert ex_user [ex_line ex_A 10 2], salesToInsert ex_user [ex_line ex_A 10 1]]
   \<and> stock_writes (received ex_after_failed_drain) = [(''A'', 9)]
   \<and> offlineSales ex_after_failed_drain = None
   \<and> alerts ex_after_failed_drain = [''Offline sales have been successfully synced!'']
   \<and> syncOfflineSales accept_all ex_after_failed_drain = ex_after_failed_drain"
proof -
  have rej: "reject_first_insert [InsertAudit \<lparr>al_user_id = ''u1'', al_user_name = ''ann'',
        al_action = ''Sync Offline Sales'', al_details = ''Syncing 2 sales recorded while offline.''\<rparr>]
        (InsertSales (salesToInsert ex_user [ex_line ex_A 10 2])) = Rejected ''timeout''"
    by (simp add: reject_first_insert_def)
  have ins: "sale_inserts (received ex_after_failed_drain)
        = [salesToInsert ex_user [ex_line ex_A 10 2], salesToInsert ex_user [ex_line ex_A 10 1]]"
    by (simp add: ex_after_failed_drain_def run_defs reject_first_insert_def)
  have wr: "stock_writes (received ex_after_failed_drain) = [(''A'', 9)]"
    by (simp add: ex_after_failed_drain_def run_defs reject_first_insert_def)
  have gone: "offlineSales ex_after_failed_drain = None"
    and al: "alerts ex_after_failed_drain = [''Offline sales have been successfully synced!'']"
    by (simp_all add: ex_after_failed_drain_def syncOfflineSales_clears ex_shop_def)
  have again: "syncOfflineSales accept_all ex_after_failed_drain = ex_after_failed_drain"
    using gone by (rule sync_absent)
  show ?thesis
    by (intro conjI) (rule rej ins wr gone al again)+
qed

subsection \<open>Reported stock (C3)\<close>




subsection \<open>Completing a sale (C4, C5)\<close>

text \<open>
  C4, as the code has it. \<open>completeSale\<close> looks at \<open>isOnline\<close> once. Online, it
  hands the cart to \<open>handleNewSale\<close>, whose first request is the insert into
  \<open>sales\<close>, and it never touches the stored queue, whatever the remote answers.
  Offline, it issues no request, and when it ends without an exception the cart has been
  appended to the stored queue.
\<close>

theorem C4_online_submits_offline_enqueues:
  "(isOnline d \<longrightarrow>
      fst (completeSale R quota_ok (d, p)) = None
      \<and> fst (snd (completeSale R quota_ok (d, p))) = handleNewSale R (cart p) d
      \<and> offlineSales (fst (snd (completeSale R quota_ok (d, p)))) = offlineSales d
      \<and> take 1 (issued d (fst (snd (completeSale R quota_ok (d, p)))))
          = [InsertSales (salesToInsert (user d) (cart p))])
   \<and> (\<not> isOnline d \<longrightarrow>
      issued d (fst (snd (completeSale R quota_ok (d, p)))) = []
      \<and> (fst (completeSale R quota_ok (d, p)) = None \<longrightarrow>
           queued (fst (snd (completeSale R quota_ok (d, p)))) = queued d @ [cart p]))"
proof (cases "isOnline d")
  case True
  obtain xs where xs:
    "received (handleNewSale R (cart p) d)
       = received d @ InsertSales (salesToInsert (user d) (cart p)) # xs"
    "sale_inserts xs = []"
    "stock_writes xs =
       (if R (received d) (InsertSales (salesToInsert (user d) (cart p))) = Ok
        then concat (map (line_writes (stockLevels d)) (cart p)) else [])"
    "set (map al_action (audit_appends xs)) \<subseteq> {''Sale''}"
    using handleNewSale_received [where R = R] by blast
  have iss: "issued d (handleNewSale R (cart p) d) = InsertSales (salesToInsert (user d) (cart p)) # xs"
    using xs(1) by (rule issued_eq)
  have st: "fst (completeSale R quota_ok (d, p)) = None"
    "fst (snd (completeSale R quota_ok (d, p))) = handleNewSale R (cart p) d"
    using True by (simp_all add: completeSale_def Let_def)
  from True show ?thesis
    by (simp add: st iss handleNewSale_frame)
next
  case False
  have "received (fst (snd (completeSale R quota_ok (d, p)))) = received d"
    using False by (simp add: completeSale_def split: option.splits stored.splits)
  then have "issued d (fst (snd (completeSale R quota_ok (d, p)))) = []"
    by (simp add: issued_def)
  with False show ?thesis
    by (simp add: completeSale_offline_queued)
qed

text \<open>
  The statement at a concrete shop, online and offline.
\<close>

theorem C4_witness:
  "isOnline (ex_shop 10 True None)
   \<and> offlineSales (fst (snd (completeSale accept_all True (ex_shop 10 True None, ex_pos [ex_line ex_A 10 2]))))
      = offlineSales (ex_shop 10 True None)
   \<and> \<not> isOnline (ex_shop 10 False None)
   \<and> fst (completeSale accept_all True (ex_shop 10 False None, ex_pos [ex_line ex_A 10 2])) = None
   \<and> issued (ex_shop 10 False None)
        (fst (snd (completeSale accept_all True (ex_shop 10 False None, ex_pos [ex_line ex_A 10 2])))) = []
   \<and> queued (fst (snd (completeSale accept_all True (ex_shop 10 False None, ex_pos [ex_line ex_A 10 2]))))
      = queued (ex_shop 10 False None) @ [cart (ex_pos [ex_line ex_A 10 2])]"
proof -
  let ?p = "ex_pos [ex_line ex_A 10 2]"
  have h1: "isOnline (ex_shop 10 True None)" by (simp add: ex_shop_def)
  have h2: "\<not> isOnline (ex_shop 10 False None)" by (simp add: ex_shop_def)
  have h3: "fst (completeSale accept_all True (ex_shop 10 False None, ?p)) = None"
    by (simp add: completeSale_def ex_shop_def)
  from C4_online_submits_offline_enqueues
         [where R = accept_all and quota_ok = True and d = "ex_shop 10 True None" and p = ?p]
       C4_online_submits_offline_enqueues
         [where R = accept_all and quota_ok = True and d = "ex_shop 10 False None" and p = ?p]
       h1 h2 h3
  show ?thesis by blast
qed

text \<open>
  Against C4 as stated: online, the remote rejects the insert into \<open>sales\<close>. The
  sale is not put into the queue; the only trace of it is the rejected request, and the
  cart is gone.
\<close>

theorem C4_rejected_online_sale_not_enqueued_counterexample:
  "isOnline (ex_shop 10 True None)
   \<and> reject_all (received (ex_shop 10 True None))
        (InsertSales (salesToInsert ex_user [ex_line ex_A 10 2])) = Rejected ''unreachable''
   \<and> received (fst (snd (completeSale reject_all True (ex_shop 10 True None, ex_pos [ex_line ex_A 10 2]))))
        = [InsertSales (salesToInsert ex_user [ex_line ex_A 10 2])]
   \<and> offlineSales (fst (snd (completeSale reject_all True (ex_shop 10 True None, ex_pos [ex_line ex_A 10 2]))))
        = None
   \<and> cart (snd (snd (completeSale reject_all True (ex_shop 10 True None, ex_pos [ex_line ex_A 10 2])))) = []"
  by (simp add: run_defs reject_all_def)

text \<open>
  C5, as the code has it. Offline, a failing write to local storage (or a stored value
  that cannot be read as an array) throws before anything is changed: queue and cart are
  as before. Offline without an exception, the cart is cleared and is the last entry of
  the queue. Online, the cart is cleared at once when the printer is disabled and kept
  until the print dialogue is closed otherwise; the answer of the remote plays no part.
\<close>

theorem C5_cart_clearing:
  "(\<not> isOnline d \<and> \<not> quota_ok \<longrightarrow> fst (completeSale R quota_ok (d, p)) \<noteq> None)
   \<and> (\<not> isOnline d \<and> fst (completeSale R quota_ok (d, p)) \<noteq> None
        \<longrightarrow> snd (completeSale R quota_ok (d, p)) = (d, p))
   \<and> (\<not> isOnline d \<and> fst (completeSale R quota_ok (d, p)) = None
        \<longrightarrow> cart (snd (snd (completeSale R quota_ok (d, p)))) = []
            \<and> queued (fst (snd (completeSale R quota_ok (d, p)))) = queued d @ [cart p])
   \<and> (isOnline d
        \<longrightarrow> cart (snd (snd (completeSale R quota_ok (d, p))))
              = (if isPrinterEnabled d then cart p else []))
   \<and> cart (handleClosePrintModal p) = []"
proof -
  have a: "\<not> isOnline d \<and> \<not> quota_ok \<longrightarrow> fst (completeSale R quota_ok (d, p)) \<noteq> None"
    by (simp add: completeSale_def split: option.splits stored.splits)
  have b: "\<not> isOnline d \<and> fst (completeSale R quota_ok (d, p)) \<noteq> None
        \<longrightarrow> snd (completeSale R quota_ok (d, p)) = (d, p)"
    by (simp add: completeSale_def split: option.splits stored.splits)
  have c: "isOnline d
        \<longrightarrow> cart (snd (snd (completeSale R quota_ok (d, p))))
              = (if isPrinterEnabled d then cart p else [])"
    by (simp add: completeSale_def Let_def)
  have e: "cart (handleClosePrintModal p) = []"
    by (simp add: handleClosePrintModal_def)
  from a b c e show ?thesis
    by (simp add: completeSale_offline_queued)
qed

text \<open>
  The statement at a concrete shop: a full store, a successful offline capture, and an
  online sale.
\<close>

theorem C5_witness:
  "\<not> isOnline (ex_shop 10 False None) \<and> \<not> False
   \<and> fst (completeSale accept_all False (ex_shop 10 False None, ex_pos [ex_line ex_A 10 2])) \<noteq> None
   \<and> snd (completeSale accept_all False (ex_shop 10 False None, ex_pos [ex_line ex_A 10 2]))
       = (ex_shop 10 False None, ex_pos [ex_line ex_A 10 2])
   \<and> fst (completeSale accept_all True (ex_shop 10 False None, ex_pos [ex_line ex_A 10 2])) = None
   \<and> cart (snd (snd (completeSale accept_all True (ex_shop 10 False None, ex_pos [ex_line ex_A 10 2])))) = []
   \<and> isOnline (ex_shop 10 True None)
   \<and> cart (snd (snd (completeSale accept_all True (ex_shop 10 True None, ex_pos [ex_line ex_A 10 2]))))
       = (if isPrinterEnabled (ex_shop 10 True None) then cart (ex_pos [ex_line ex_A 10 2]) else [])"
proof -
  let ?p = "ex_pos [ex_line ex_A 10 2]"
  have h1: "\<not> isOnline (ex_shop 10 False None)" by (simp add: ex_shop_def)
  have h2: "isOnline (ex_shop 10 True None)" by (simp add: ex_shop_def)
  have h3: "fst (completeSale accept_all True (ex_shop 10 False None, ?p)) = None"
    by (simp add: completeSale_def ex_shop_def)
  from C5_cart_clearing [where R = accept_all and quota_ok = False and d = "ex_shop 10 False None" and p = ?p]
       C5_cart_clearing [where R = accept_all and quota_ok = True and d = "ex_shop 10 False None" and p = ?p]
       C5_cart_clearing [where R = accept_all and quota_ok = True and d = "ex_shop 10 True None" and p = ?p]
       h1 h2 h3
  show ?thesis by blast
qed

text \<open>
  Against C5 as stated: online with the printer disabled, the remote rejects the insert
  into \<open>sales\<close>. The cart is cleared although the sale was neither accepted by the
  remote nor queued.
\<close>

theorem C5_cart_cleared_without_disposition_counterexample:
  "isOnline (ex_shop 10 True None)
   \<and> reject_all (received (ex_shop 10 True None))
        (InsertSales (salesToInsert ex_user [ex_line ex_A 10 1])) = Rejected ''unreachable''
   \<and> cart (snd (snd (completeSale reject_all True
        (ex_shop 10 True None, ex_pos [ex_line ex_A 10 1])))) = []
   \<and> queued (fst (snd (completeSale reject_all True
        (ex_shop 10 True None, ex_pos [ex_line ex_A 10 1])))) = []
   \<and> stock_writes (received (fst (snd (completeSale reject_all True
        (ex_shop 10 True None, ex_pos [ex_line ex_A 10 1]))))) = []"
  by (simp add: run_defs reject_all_def)

subsection \<open>Audit entries (C6)\<close>

text \<open>
  C6, as the code has it. Against a remote that accepts everything, a sale appends one
  audit entry with action \<open>Sale\<close> for each cart line that has a stock row, written
  after that line's stock update, and none for the insert into \<open>sales\<close>. A drain of
  a queue that is not empty first appends one entry with action
  \<open>Sync Offline Sales\<close>, then those of its sales; a drain of an empty queue appends
  none.
\<close>

theorem C6_audit_entries_of_sale_and_drain:
  "map al_action (audit_appends (issued d (handleNewSale accept_all c d))) =
       replicate (length (lines_with_stock (stockLevels d) c)) ''Sale''
   \<and> (queued d \<noteq> [] \<longrightarrow>
        map al_action (audit_appends (issued d (syncOfflineSales accept_all d))) =
          ''Sync Offline Sales'' #
          replicate (length (lines_with_stock (stockLevels d) (concat (queued d)))) ''Sale'')
   \<and> (queued d = [] \<longrightarrow> audit_appends (issued d (syncOfflineSales accept_all d)) = [])"
proof -
  obtain xs where xs:
    "received (handleNewSale accept_all c d) =
            received d @ InsertSales (salesToInsert (user d) c) # xs"
    "sale_inserts xs = []"
    "stock_writes xs = concat (map (line_writes (stockLevels d)) c)"
    "map al_action (audit_appends xs) =
            replicate (length (lines_with_stock (stockLevels d) c)) ''Sale''"
    using handleNewSale_accept by blast
  have "issued d (handleNewSale accept_all c d) = InsertSales (salesToInsert (user d) c) # xs"
    using xs(1) by (rule issued_eq)
  then have "map al_action (audit_appends (issued d (handleNewSale accept_all c d))) =
       replicate (length (lines_with_stock (stockLevels d) c)) ''Sale''"
    by (simp add: xs(4))
  then show ?thesis
    by (simp add: sync_accept_issued sync_idle_issued)
qed

text \<open>
  The statement at a queue holding one sale with a line that has a stock row and a line
  that has none, and at an empty queue.
\<close>

theorem C6_witness:
  "queued (ex_shop 10 True (Some (CartArray [[ex_line ex_A 10 2, ex_line ex_B 4 1]]))) \<noteq> []
   \<and> map al_action (audit_appends
        (issued (ex_shop 10 True (Some (CartArray [[ex_line ex_A 10 2, ex_line ex_B 4 1]])))
           (syncOfflineSales accept_all
              (ex_shop 10 True (Some (CartArray [[ex_line ex_A 10 2, ex_line ex_B 4 1]]))))))
      = ''Sync Offline Sales'' #
        replicate (length (lines_with_stock
          (stockLevels (ex_shop 10 True (Some (CartArray [[ex_line ex_A 10 2, ex_line ex_B 4 1]]))))
          (concat (queued (ex_shop 10 True (Some (CartArray [[ex_line ex_A 10 2, ex_line ex_B 4 1]]))))))) ''Sale''
   \<and> queued (ex_shop 10 True None) = []
   \<and> audit_appends (issued (ex_shop 10 True None) (syncOfflineSales accept_all (ex_shop 10 True None))) = []"
proof -
  let ?d = "ex_shop 10 True (Some (CartArray [[ex_line ex_A 10 2, ex_line ex_B 4 1]]))"
  have h1: "queued ?d \<noteq> []" by (simp add: queued_def ex_shop_def)
  have h2: "queued (ex_shop 10 True None) = []" by (simp add: queued_def ex_shop_def)
  from C6_audit_entries_of_sale_and_drain [where d = ?d]
       C6_audit_entries_of_sale_and_drain [where d = "ex_shop 10 True None"] h1 h2
  show ?thesis by blast
qed

text \<open>
  Against C6 as stated: draining one queued sale of two units of A sends one insert
  into \<open>sales\<close>, one stock update and two audit entries, the first of them for the
  drain itself.
\<close>

theorem C6_two_audit_appends_counterexample:
  "sale_inserts (issued (ex_shop 10 True (Some (CartArray [[ex_line ex_A 10 2]])))
      (syncOfflineSales accept_all (ex_shop 10 True (Some (CartArray [[ex_line ex_A 10 2]])))))
     = [salesToInsert ex_user [ex_line ex_A 10 2]]
   \<and> stock_writes (issued (ex_shop 10 True (Some (CartArray [[ex_line ex_A 10 2]])))
      (syncOfflineSales accept_all (ex_shop 10 True (Some (CartArray [[ex_line ex_A 10 2]])))))
     = [(''A'', 8)]
   \<and> map al_action (audit_appends (issued (ex_shop 10 True (Some (CartArray [[ex_line ex_A 10 2]])))
      (syncOfflineSales accept_all (ex_shop 10 True (Some (CartArray [[ex_line ex_A 10 2]]))))))
     = [''Sync Offline Sales'', ''Sale'']"
  by (simp add: run_defs)

subsection \<open>Stock values written by sales (C7)\<close>

text \<open>
  C7, as the code has it. Every stock value a sale or a drain writes is, for some cart
  line with a stock row, the quantity of that row in the snapshot held at submission minus
  the quantity of the line. It is not negative when no line asks for more than that row
  holds. What the line was allowed at capture time plays no part.
\<close>

theorem C7_sale_writes_snapshot_minus_quantity:
  "set (stock_writes (issued d (handleNewSale R c d)))
       \<subseteq> (\<Union>item \<in> set c. set (line_writes (stockLevels d) item))
   \<and> set (stock_writes (issued d (syncOfflineSales R d)))
       \<subseteq> (\<Union>c \<in> set (queued d). \<Union>item \<in> set c. set (line_writes (stockLevels d) item))
   \<and> ((\<forall>c \<in> set (queued d). \<forall>item \<in> set c. \<forall>s.
          stock_row (stockLevels d) item = Some s \<longrightarrow> quantity item \<le> sl_quantity s)
        \<longrightarrow> (\<forall>w \<in> set (stock_writes (issued d (syncOfflineSales R d))). 0 \<le> snd w))
   \<and> ((\<forall>item \<in> set c. \<forall>s.
          stock_row (stockLevels d) item = Some s \<longrightarrow> quantity item \<le> sl_quantity s)
        \<longrightarrow> (\<forall>w \<in> set (stock_writes (issued d (handleNewSale R c d))). 0 \<le> snd w))"
proof -
  have one: "set (stock_writes (issued d (handleNewSale R c d)))
       \<subseteq> (\<Union>item \<in> set c. set (line_writes (stockLevels d) item))"
  proof -
    obtain xs where xs:
      "received (handleNewSale R c d) = received d @ InsertSales (salesToInsert (user d) c) # xs"
      "sale_inserts xs = []"
      "stock_writes xs =
         (if R (received d) (InsertSales (salesToInsert (user d) c)) = Ok
          then concat (map (line_writes (stockLevels d)) c) else [])"
      "set (map al_action (audit_appends xs)) \<subseteq> {''Sale''}"
      using handleNewSale_received by blast
    have "issued d (handleNewSale R c d) = InsertSales (salesToInsert (user d) c) # xs"
      using xs(1) by (rule issued_eq)
    then have "stock_writes (issued d (handleNewSale R c d)) = stock_writes xs"
      by simp
    then show ?thesis
      unfolding xs(3) by (cases "R (received d) (InsertSales (salesToInsert (user d) c)) = Ok") simp_all
  qed
  have all: "set (stock_writes (issued d (syncOfflineSales R d)))
       \<subseteq> (\<Union>c \<in> set (queued d). \<Union>item \<in> set c. set (line_writes (stockLevels d) item))"
  proof (cases "queued d = []")
    case True
    then have "issued d (syncOfflineSales R d) = []"
      by (simp add: issued_def sync_idle)
    then show ?thesis by simp
  next
    case False
    then have q: "offlineSales d = Some (CartArray (queued d))"
      by (rule queued_nonempty)
    obtain a xs where tr:
      "received (syncOfflineSales R d) =
            received d @ InsertAudit a # xs @
              [SelectAll ''products'', SelectAll ''stock_levels'',
               SelectAll ''sales'', SelectAll ''audit_logs'']"
      "al_action a = ''Sync Offline Sales''"
      "sale_inserts xs = map (salesToInsert (user d)) (queued d)"
      "set (stock_writes xs) \<subseteq>
            (\<Union>c \<in> set (queued d). \<Union>item \<in> set c. set (line_writes (stockLevels d) item))"
      "set (map al_action (audit_appends xs)) \<subseteq> {''Sale''}"
      using syncOfflineSales_received [where R = R, OF q False] by blast
    have "issued d (syncOfflineSales R d) = InsertAudit a # xs @
              [SelectAll ''products'', SelectAll ''stock_levels'',
               SelectAll ''sales'', SelectAll ''audit_logs'']"
      using tr(1) by (rule issued_eq)
    then have "stock_writes (issued d (syncOfflineSales R d)) = stock_writes xs"
      by (simp add: stock_writes_append)
    with tr(4) show ?thesis by simp
  qed
  have nonneg: "0 \<le> snd w"
    if "w \<in> set (line_writes (stockLevels d) item)"
      and "\<forall>s. stock_row (stockLevels d) item = Some s \<longrightarrow> quantity item \<le> sl_quantity s"
    for w item
    using that line_writes_product [of w "stockLevels d" item] by auto
  have drain_nonneg: "\<forall>w \<in> set (stock_writes (issued d (syncOfflineSales R d))). 0 \<le> snd w"
    if h: "\<forall>c \<in> set (queued d). \<forall>item \<in> set c. \<forall>s.
          stock_row (stockLevels d) item = Some s \<longrightarrow> quantity item \<le> sl_quantity s"
  proof
    fix w
    assume "w \<in> set (stock_writes (issued d (syncOfflineSales R d)))"
    with all obtain c' item where "c' \<in> set (queued d)" "item \<in> set c'"
        "w \<in> set (line_writes (stockLevels d) item)"
      by auto
    with h nonneg [of w item] show "0 \<le> snd w" by blast
  qed
  have sale_nonneg: "\<forall>w \<in> set (stock_writes (issued d (handleNewSale R c d))). 0 \<le> snd w"
    if h: "\<forall>item \<in> set c. \<forall>s.
          stock_row (stockLevels d) item = Some s \<longrightarrow> quantity item \<le> sl_quantity s"
  proof
    fix w
    assume "w \<in> set (stock_writes (issued d (handleNewSale R c d)))"
    with one obtain item where "item \<in> set c" "w \<in> set (line_writes (stockLevels d) item)"
      by auto
    with h nonneg [of w item] show "0 \<le> snd w" by blast
  qed
  show ?thesis
    using one all drain_nonneg sale_nonneg by (intro conjI impI)
qed

text \<open>
  The statement at a queue of two sales of three units each against a snapshot of ten.
\<close>

theorem C7_witness:
  "list_all (\<lambda>c. list_all (\<lambda>item.
        case stock_row (stockLevels (ex_shop 10 True (Some (CartArray [[ex_line ex_A 10 3], [ex_line ex_A 10 3]]))))
               item of
          None \<Rightarrow> True
        | Some s \<Rightarrow> quantity item \<le> sl_quantity s) c)
      (queued (ex_shop 10 True (Some (CartArray [[ex_line ex_A 10 3], [ex_line ex_A 10 3]]))))
   \<and> list_all (\<lambda>w. 0 \<le> snd w) (stock_writes
         (issued (ex_shop 10 True (Some (CartArray [[ex_line ex_A 10 3], [ex_line ex_A 10 3]])))
            (syncOfflineSales accept_all
               (ex_shop 10 True (Some (CartArray [[ex_line ex_A 10 3], [ex_line ex_A 10 3]]))))))
   \<and> list_all (\<lambda>w. 0 \<le> snd w) (stock_writes
         (issued (ex_shop 10 True (Some (CartArray [[ex_line ex_A 10 3], [ex_line ex_A 10 3]])))
            (handleNewSale accept_all [ex_line ex_A 10 3]
               (ex_shop 10 True (Some (CartArray [[ex_line ex_A 10 3], [ex_line ex_A 10 3]]))))))"
proof -
  let ?d = "ex_shop 10 True (Some (CartArray [[ex_line ex_A 10 3], [ex_line ex_A 10 3]]))"
  have h0: "list_all (\<lambda>c. list_all (\<lambda>item.
        case stock_row (stockLevels ?d) item of
          None \<Rightarrow> True
        | Some s \<Rightarrow> quantity item \<le> sl_quantity s) c) (queued ?d)"
    by (simp add: queued_def ex_shop_def stock_row_def ex_line_def ex_A_def)
  have h1: "\<forall>c \<in> set (queued ?d). \<forall>item \<in> set c. \<forall>s.
        stock_row (stockLevels ?d) item = Some s \<longrightarrow> quantity item \<le> sl_quantity s"
    by (simp add: queued_def ex_shop_def stock_row_def ex_line_def ex_A_def)
  have h2: "\<forall>item \<in> set [ex_line ex_A 10 3]. \<forall>s.
        stock_row (stockLevels ?d) item = Some s \<longrightarrow> quantity item \<le> sl_quantity s"
    by (simp add: ex_shop_def stock_row_def ex_line_def ex_A_def)
  have "(\<forall>w \<in> set (stock_writes (issued ?d (syncOfflineSales accept_all ?d))). 0 \<le> snd w)
      \<and> (\<forall>w \<in> set (stock_writes (issued ?d (handleNewSale accept_all [ex_line ex_A 10 3] ?d))).
            0 \<le> snd w)"
    using C7_sale_writes_snapshot_minus_quantity
           [where R = accept_all and d = ?d and c = "[ex_line ex_A 10 3]"] h1 h2
    by blast
  with h0 show ?thesis
    by (simp only: list_all_iff)
qed

text \<open>
  Against C7 as stated: a line of five units, captured when the product showed five in
  stock, is replayed when the snapshot holds two. The drain writes the quantity -3.
\<close>

theorem C7_negative_write_counterexample:
  "1 \<le> quantity (ex_line ex_A 5 5)
   \<and> quantity (ex_line ex_A 5 5) \<le> stock (product (ex_line ex_A 5 5))
   \<and> stock_writes (issued (ex_shop 2 True (Some (CartArray [[ex_line ex_A 5 5]])))
        (syncOfflineSales accept_all (ex_shop 2 True (Some (CartArray [[ex_line ex_A 5 5]])))))
      = [(''A'', - 3)]"
  by (simp add: run_defs)

subsection \<open>Order of replay (C8)\<close>





subsection \<open>Failure of the first step of a submission (C9)\<close>

text \<open>
  When the remote rejects the insert into \<open>sales\<close>, \<open>handleNewSale\<close> logs the
  error and does nothing else: the insert is the only request it has issued.
\<close>

lemma handleNewSale_rejected:
  assumes "R (received d) (InsertSales (salesToInsert (user d) c)) = Rejected e"
  shows "handleNewSale R c d =
           d\<lparr>received := received d @ [InsertSales (salesToInsert (user d) c)],
             console := console d @ [ConsoleError e]\<rparr>"
  using assms by (simp add: handleNewSale_def send_def)

text \<open>
  The queue and the alerts a drain leaves behind do not depend on what the remote
  answers.
\<close>

lemma sync_outcome_same:
  "offlineSales (syncOfflineSales R d) = offlineSales (syncOfflineSales R' d)"
  "alerts (syncOfflineSales R d) = alerts (syncOfflineSales R' d)"
proof -
  have "offlineSales (syncOfflineSales R d) = offlineSales (syncOfflineSales R' d)
      \<and> alerts (syncOfflineSales R d) = alerts (syncOfflineSales R' d)"
  proof (cases "queued d = []")
    case True
    then show ?thesis
      by (auto simp: queued_def syncOfflineSales_def split: option.splits stored.splits)
  next
    case False
    then have "offlineSales d = Some (CartArray (queued d))"
      by (rule queued_nonempty)
    with False show ?thesis
      by (simp add: syncOfflineSales_clears)
  qed
  then show "offlineSales (syncOfflineSales R d) = offlineSales (syncOfflineSales R' d)"
    and "alerts (syncOfflineSales R d) = alerts (syncOfflineSales R' d)"
    by simp_all
qed

text \<open>
  C9. When the insert into \<open>sales\<close> fails, the whole submission is to fail and
  nothing downstream is to be attempted. Evaluated on a sale of two units of A against a
  remote that rejects every request: nothing downstream is attempted, the insert being
  the only request and the only other change a line in the console; but the submission
  does not fail. \<open>handleNewSale\<close> returns as it does after a success, so
  \<open>completeSale\<close> ends with the same result and the same sale screen as against a
  remote that accepts everything, and a drain of this sale leaves the same queue and the
  same alerts.
\<close>

theorem C9_rejected_insert_is_not_reported:
  "reject_all (received (ex_shop 10 True None))
       (InsertSales (salesToInsert (user (ex_shop 10 True None)) [ex_line ex_A 10 2]))
     = Rejected ''unreachable''
   \<and> handleNewSale reject_all [ex_line ex_A 10 2] (ex_shop 10 True None) =
       (ex_shop 10 True None)
         \<lparr>received := received (ex_shop 10 True None) @
             [InsertSales (salesToInsert (user (ex_shop 10 True None)) [ex_line ex_A 10 2])],
           console := console (ex_shop 10 True None) @ [ConsoleError ''unreachable'']\<rparr>
   \<and> fst (completeSale reject_all True (ex_shop 10 True None, ex_pos [ex_line ex_A 10 2]))
       = fst (completeSale accept_all True (ex_shop 10 True None, ex_pos [ex_line ex_A 10 2]))
   \<and> snd (snd (completeSale reject_all True (ex_shop 10 True None, ex_pos [ex_line ex_A 10 2])))
       = snd (snd (completeSale accept_all True (ex_shop 10 True None, ex_pos [ex_line ex_A 10 2])))
   \<and> offlineSales (syncOfflineSales reject_all (ex_shop 10 True (Some (CartArray [[ex_line ex_A 10 2]]))))
       = offlineSales (syncOfflineSales accept_all (ex_shop 10 True (Some (CartArray [[ex_line ex_A 10 2]]))))
   \<and> alerts (syncOfflineSales reject_all (ex_shop 10 True (Some (CartArray [[ex_line ex_A 10 2]]))))
       = alerts (syncOfflineSales accept_all (ex_shop 10 True (Some (CartArray [[ex_line ex_A 10 2]]))))"
proof -
  let ?d = "ex_shop 10 True None"
  let ?c = "[ex_line ex_A 10 2]"
  have h: "reject_all (received ?d) (InsertSales (salesToInsert (user ?d) ?c))
     = Rejected ''unreachable''"
    by (simp add: reject_all_def)
  have a: "handleNewSale reject_all ?c ?d =
       ?d\<lparr>received := received ?d @ [InsertSales (salesToInsert (user ?d) ?c)],
           console := console ?d @ [ConsoleError ''unreachable'']\<rparr>"
    using h by (rule handleNewSale_rejected)
  have b: "fst (completeSale reject_all True (?d, ex_pos ?c))
       = fst (completeSale accept_all True (?d, ex_pos ?c))"
    and c: "snd (snd (completeSale reject_all True (?d, ex_pos ?c)))
       = snd (snd (completeSale accept_all True (?d, ex_pos ?c)))"
    by (simp_all add: completeSale_def Let_def ex_shop_def)
  from h a b c sync_outcome_same show ?thesis by (intro conjI)
qed

subsection \<open>Cart lines without a stock row (C10)\<close>

text \<open>
  C10. During a drain, a cart line whose product has no row in the stock snapshot is
  passed over: its turn of the loop leaves every state as it is (no request, no log
  entry, no alert), its row is part of the insert into \<open>sales\<close> that the drain
  sends for its cart, the drain writes no stock for its product, and the drain still
  removes the queue and reports success.
\<close>

theorem C10_line_without_stock_row_is_skipped:
  assumes "offlineSales d = Some (CartArray cs)" and "c \<in> set cs" and "item \<in> set c"
      and "stock_row (stockLevels d) item = None"
  shows "sale_line R (stockLevels d) item s = s
       \<and> \<lparr>s_product_id = p_id (product item), s_quantity = quantity item,
           s_total_price = p_price (product item) * quantity item,
           s_branch_id = u_branch_id (user d), s_user_id = u_id (user d)\<rparr>
           \<in> set (salesToInsert (user d) c)
       \<and> salesToInsert (user d) c \<in> set (sale_inserts (issued d (syncOfflineSales R d)))
       \<and> (\<forall>q. (p_id (product item), q) \<notin> set (stock_writes (issued d (syncOfflineSales R d))))
       \<and> offlineSales (syncOfflineSales R d) = None
       \<and> alerts (syncOfflineSales R d) = alerts d @ [''Offline sales have been successfully synced!'']"
proof -
  from assms(2) have ne: "cs \<noteq> []" by auto
  have skip: "sale_line R (stockLevels d) item s = s"
    using assms(4) by (simp add: sale_line_def stock_row_def)
  have row: "\<lparr>s_product_id = p_id (product item), s_quantity = quantity item,
           s_total_price = p_price (product item) * quantity item,
           s_branch_id = u_branch_id (user d), s_user_id = u_id (user d)\<rparr>
           \<in> set (salesToInsert (user d) c)"
    using assms(3) by (auto simp: salesToInsert_def)
  obtain a xs where tr:
    "received (syncOfflineSales R d) =
            received d @ InsertAudit a # xs @
              [SelectAll ''products'', SelectAll ''stock_levels'',
               SelectAll ''sales'', SelectAll ''audit_logs'']"
    "al_action a = ''Sync Offline Sales''"
    "sale_inserts xs = map (salesToInsert (user d)) cs"
    "set (stock_writes xs) \<subseteq>
            (\<Union>c \<in> set cs. \<Union>item \<in> set c. set (line_writes (stockLevels d) item))"
    "set (map al_action (audit_appends xs)) \<subseteq> {''Sale''}"
    using syncOfflineSales_received [where R = R, OF assms(1) ne] by blast
  have iss: "issued d (syncOfflineSales R d) = InsertAudit a # xs @
              [SelectAll ''products'', SelectAll ''stock_levels'',
               SelectAll ''sales'', SelectAll ''audit_logs'']"
    using tr(1) by (rule issued_eq)
  have ins: "sale_inserts (issued d (syncOfflineSales R d)) = map (salesToInsert (user d)) cs"
    by (simp add: iss sale_inserts_append tr(3))
  have wr: "stock_writes (issued d (syncOfflineSales R d)) = stock_writes xs"
    by (simp add: iss stock_writes_append)
  have sent: "salesToInsert (user d) c \<in> set (sale_inserts (issued d (syncOfflineSales R d)))"
    unfolding ins using assms(2) by simp
  have nowrite: "\<forall>q. (p_id (product item), q) \<notin> set (stock_writes (issued d (syncOfflineSales R d)))"
  proof (intro allI notI)
    fix q
    assume "(p_id (product item), q) \<in> set (stock_writes (issued d (syncOfflineSales R d)))"
    with wr tr(4) obtain c' item' where
      "item' \<in> set c'" "(p_id (product item), q) \<in> set (line_writes (stockLevels d) item')"
      by auto
    then obtain s' where "stock_row (stockLevels d) item' = Some s'"
        "p_id (product item') = p_id (product item)"
      using line_writes_product by fastforce
    with assms(4) show False by (simp add: stock_row_def)
  qed
  from skip row sent nowrite syncOfflineSales_clears [OF assms(1) ne, of R]
  show ?thesis by blast
qed

text \<open>
  The statement at a queued cart with a line for A, which has a stock row, and a line
  for B, which has none.
\<close>

theorem C10_witness:
  "offlineSales (ex_shop 10 True (Some (CartArray [[ex_line ex_A 10 2, ex_line ex_B 4 1]])))
     = Some (CartArray [[ex_line ex_A 10 2, ex_line ex_B 4 1]])
   \<and> [ex_line ex_A 10 2, ex_line ex_B 4 1] \<in> set [[ex_line ex_A 10 2, ex_line ex_B 4 1]]
   \<and> ex_line ex_B 4 1 \<in> set [ex_line ex_A 10 2, ex_line ex_B 4 1]
   \<and> stock_row (stockLevels (ex_shop 10 True (Some (CartArray [[ex_line ex_A 10 2, ex_line ex_B 4 1]]))))
         (ex_line ex_B 4 1) = None
   \<and> (\<forall>q. (p_id (product (ex_line ex_B 4 1)), q) \<notin> set (stock_writes
         (issued (ex_shop 10 True (Some (CartArray [[ex_line ex_A 10 2, ex_line ex_B 4 1]])))
            (syncOfflineSales accept_all
               (ex_shop 10 True (Some (CartArray [[ex_line ex_A 10 2, ex_line ex_B 4 1]])))))))
   \<and> offlineSales (syncOfflineSales accept_all
         (ex_shop 10 True (Some (CartArray [[ex_line ex_A 10 2, ex_line ex_B 4 1]])))) = None"
proof -
  let ?c = "[ex_line ex_A 10 2, ex_line ex_B 4 1]"
  let ?d = "ex_shop 10 True (Some (CartArray [?c]))"
  have h1: "offlineSales ?d = Some (CartArray [?c])"
    by (simp add: ex_shop_def)
  have h2: "?c \<in> set [?c]" by simp
  have h3: "ex_line ex_B 4 1 \<in> set ?c" by simp
  have h4: "stock_row (stockLevels ?d) (ex_line ex_B 4 1) = None"
    by (simp add: stock_row_def ex_shop_def ex_line_def ex_B_def)
  from C10_line_without_stock_row_is_skipped [where R = accept_all and s = ?d, OF h1 h2 h3 h4]
    h1 h2 h3 h4
  show ?thesis by blast
qed

end
